theory Spec2Isabelle
  imports
    Complex_Main
    "HOL-Library.Multiset"
    "HOL-Library.List_Lexorder"
    "HOL-Library.Sublist"
begin

section \<open>Data model\<close>

text \<open>
  The program is the script \<^verbatim>\<open>dt_index_deploy.py\<close>: a loader \<^verbatim>\<open>load_data\<close> and a
  page body that filters the loaded table, summarises the filtered view and renders
  the result.

  A Python \<^verbatim>\<open>str\<close> is the list of its code points. The order on strings is
  Python's: lexicographic by code point.
\<close>

type_synonym pystr = "nat list"

definition pystr :: "string \<Rightarrow> pystr" where
  "pystr s = map of_char s"

text \<open>
  One row of the table after \<^verbatim>\<open>load_data\<close> has normalised it. The fields are the columns
  the script reads: stock code, company name, industry code, industry name, year,
  digital-transformation index, total term frequency. Every row has a company name,
  and its index is a number, not a missing value; the index is a rational, as every
  finite float is.
\<close>

record firm_year =
  col_stock_code :: pystr
  col_company_name :: pystr
  col_industry_code :: pystr
  col_industry_name :: pystr
  col_year :: int
  col_index :: rat
  col_term_freq :: int

type_synonym table = "firm_year list"

text \<open>The string constants of the script, as code points.\<close>

definition industry_all :: pystr where
  "industry_all = [0x5168, 0x90E8]"

definition unknown_industry :: pystr where
  "unknown_industry = [0x672A, 0x77E5, 0x884C, 0x4E1A]"

definition unknown_code :: pystr where
  "unknown_code = [0x672A, 0x77E5]"

definition data_file :: pystr where
  "data_file = [0x5408, 0x5E76, 0x540E, 0x7684, 0x6570, 0x5B57, 0x5316, 0x8F6C, 0x578B,
                0x6307, 0x6570, 0x6570, 0x636E] @ pystr ''.xlsx''"

definition possible_paths :: "pystr list" where
  "possible_paths = [data_file, pystr ''./'' @ data_file, pystr ''/app/'' @ data_file]"

text \<open>Exceptions are values. \<open>Re_error\<close> is \<^verbatim>\<open>re.error\<close>, \<open>Type_error\<close> is
  \<^verbatim>\<open>TypeError\<close>, \<open>Other_error\<close> is any other exception, with its message.\<close>

datatype exn = Re_error | Type_error | Other_error pystr

text \<open>
  The library functions whose results are not determined by the script:
  \<^item> \<open>series_mean\<close>: \<^verbatim>\<open>Series.mean()\<close>, a float64 computation of pandas;
  \<^item> \<open>format_1f\<close>: the format \<^verbatim>\<open>f"{x:.1f}"\<close> of a float;
  \<^item> \<open>ci_eq c d\<close>: whether the pattern character \<open>c\<close> matches the text character \<open>d\<close>
    under \<^verbatim>\<open>re.IGNORECASE\<close>;
  \<^item> \<open>re_compile_other\<close>: \<^verbatim>\<open>re.compile(pat, re.IGNORECASE)\<close> followed by
    \<^verbatim>\<open>search(x) is not None\<close>, for the patterns that use more of the regular
    expression syntax than \<open>re_compile\<close> below interprets.
\<close>

record pylib =
  series_mean :: "rat list \<Rightarrow> rat"
  format_1f :: "rat \<Rightarrow> pystr"
  ci_eq :: "nat \<Rightarrow> nat \<Rightarrow> bool"
  re_compile_other :: "pystr \<Rightarrow> exn + (pystr \<Rightarrow> bool)"

section \<open>The text searches\<close>

text \<open>
  \<^verbatim>\<open>Series.str.contains(pat, case=False)\<close> has \<^verbatim>\<open>regex=True\<close> by default: pandas
  compiles \<open>pat\<close> with \<^verbatim>\<open>re.IGNORECASE\<close> and keeps the rows where
  \<^verbatim>\<open>search\<close> finds a match. The special characters of the syntax are
  \<^verbatim>\<open>. ^ $ * + ? { } [ ] \ | ( )\<close>. Interpreted here:
  \<^item> a pattern that starts with \<^verbatim>\<open>*\<close>, \<^verbatim>\<open>+\<close> or \<^verbatim>\<open>?\<close> does not compile
    (\<^verbatim>\<open>re.error\<close>: nothing to repeat);
  \<^item> a pattern of ordinary characters and dots compiles to a sequence of atoms, the dot
    matching every character but the newline;
  \<^item> every other pattern is left to \<open>re_compile_other\<close>.
\<close>

definition re_special :: "nat list" where
  "re_special = [0x2E, 0x5E, 0x24, 0x2A, 0x2B, 0x3F, 0x7B, 0x7D, 0x5B, 0x5D, 0x5C, 0x7C, 0x28, 0x29]"

definition repeat_chars :: "nat list" where
  "repeat_chars = [0x2A, 0x2B, 0x3F]"

datatype atom = Lit nat | Any_char

definition parse_atom :: "nat \<Rightarrow> atom" where
  "parse_atom c = (if c = 0x2E then Any_char else Lit c)"

fun atom_match :: "(nat \<Rightarrow> nat \<Rightarrow> bool) \<Rightarrow> atom \<Rightarrow> nat \<Rightarrow> bool" where
  "atom_match ceq (Lit c) d = ceq c d"
| "atom_match ceq Any_char d = (d \<noteq> 0x0A)"

text \<open>\<open>match_here\<close>: the atoms match at the start of the text.\<close>

fun match_here :: "(nat \<Rightarrow> nat \<Rightarrow> bool) \<Rightarrow> atom list \<Rightarrow> pystr \<Rightarrow> bool" where
  "match_here ceq [] ds = True"
| "match_here ceq (a # as) [] = False"
| "match_here ceq (a # as) (d # ds) = (atom_match ceq a d \<and> match_here ceq as ds)"

text \<open>\<open>re_search\<close>: the atoms match at some position of the text, tried from the left.\<close>

fun re_search :: "(nat \<Rightarrow> nat \<Rightarrow> bool) \<Rightarrow> atom list \<Rightarrow> pystr \<Rightarrow> bool" where
  "re_search ceq as [] = match_here ceq as []"
| "re_search ceq as (d # ds) = (match_here ceq as (d # ds) \<or> re_search ceq as ds)"

definition plain :: "pystr \<Rightarrow> bool" where
  "plain pat = list_all (\<lambda>c. c \<notin> set re_special) pat"

definition in_fragment :: "pystr \<Rightarrow> bool" where
  "in_fragment pat = list_all (\<lambda>c. c = 0x2E \<or> c \<notin> set re_special) pat"

definition re_compile :: "pylib \<Rightarrow> pystr \<Rightarrow> exn + (pystr \<Rightarrow> bool)" where
  "re_compile lib pat =
     (if pat \<noteq> [] \<and> hd pat \<in> set repeat_chars then Inl Re_error
      else if in_fragment pat then Inr (re_search (ci_eq lib) (map parse_atom pat))
      else re_compile_other lib pat)"

text \<open>The pattern is compiled once, before any row is looked at; the result is the
  boolean mask of the column.\<close>

definition str_contains :: "pylib \<Rightarrow> pystr \<Rightarrow> pystr list \<Rightarrow> exn + bool list" where
  "str_contains lib pat col =
     (case re_compile lib pat of Inl e \<Rightarrow> Inl e | Inr m \<Rightarrow> Inr (map m col))"

text \<open>The spec's words: \<open>s\<close> occurs in \<open>x\<close> as a literal substring, letter case ignored.\<close>

definition ci_substring :: "(nat \<Rightarrow> nat \<Rightarrow> bool) \<Rightarrow> pystr \<Rightarrow> pystr \<Rightarrow> bool" where
  "ci_substring ceq s x =
     list_ex (\<lambda>t. length s \<le> length t \<and> list_all2 ceq s (take (length s) t)) (suffixes x)"

section \<open>The filters\<close>

text \<open>The values the sidebar widgets return.\<close>

record selections =
  selected_year :: int
  selected_industry :: pystr
  company_name :: pystr
  stock_code :: pystr

text \<open>\<^verbatim>\<open>df[mask]\<close>: the rows whose mask entry is true.\<close>

definition boolean_index :: "'a list \<Rightarrow> bool list \<Rightarrow> 'a list" where
  "boolean_index rows bs = map fst (filter snd (zip rows bs))"

definition filter_year :: "table \<Rightarrow> int \<Rightarrow> table" where
  "filter_year df y = boolean_index df (map (\<lambda>r. col_year r = y) df)"

definition filter_industry :: "table \<Rightarrow> pystr \<Rightarrow> table" where
  "filter_industry view ind =
     (if ind \<noteq> industry_all
      then boolean_index view (map (\<lambda>r. col_industry_name r = ind) view)
      else view)"

definition filter_company :: "pylib \<Rightarrow> table \<Rightarrow> pystr \<Rightarrow> exn + table" where
  "filter_company lib view s =
     (if s \<noteq> []
      then (case str_contains lib s (map col_company_name view) of
              Inl e \<Rightarrow> Inl e
            | Inr bs \<Rightarrow> Inr (boolean_index view bs))
      else Inr view)"

definition filter_stock :: "pylib \<Rightarrow> table \<Rightarrow> pystr \<Rightarrow> exn + table" where
  "filter_stock lib view s =
     (if s \<noteq> []
      then (case str_contains lib s (map col_stock_code view) of
              Inl e \<Rightarrow> Inl e
            | Inr bs \<Rightarrow> Inr (boolean_index view bs))
      else Inr view)"

definition filtered_df :: "pylib \<Rightarrow> table \<Rightarrow> selections \<Rightarrow> exn + table" where
  "filtered_df lib df sel =
     (case filter_company lib
             (filter_industry (filter_year df (selected_year sel)) (selected_industry sel))
             (company_name sel) of
        Inl e \<Rightarrow> Inl e
      | Inr view \<Rightarrow> filter_stock lib view (stock_code sel))"

section \<open>Aggregation and rendering\<close>

text \<open>
  What a run puts on the page, in order. The labels and messages of the script are
  fixed texts, so each is a constructor:
  \<^item> \<open>Success p\<close>, \<open>Error_not_found\<close>, \<open>Error_load_failed e\<close>, \<open>Error_traceback e\<close>: the
    messages of \<^verbatim>\<open>load_data\<close>;
  \<^item> \<open>Title\<close>, \<open>Rule\<close>; the sidebar: \<open>Sidebar_header\<close>, \<open>Select_year options index\<close>,
    \<open>Sidebar_warning\<close>, \<open>Select_industry options\<close>, \<open>Text_input_company\<close>,
    \<open>Text_input_stock\<close>;
  \<^item> the metric tiles \<open>Metric_count\<close>, \<open>Metric_avg\<close>, \<open>Metric_max\<close>, \<open>Metric_min\<close> and
    the warning \<open>Warning_no_data\<close>;
  \<^item> the three section headings, the histogram of the index values (with the year of
    its title), the ranked table, the bar chart of industry averages (with the year of
    its title) and the message \<open>Info_no_known_industry\<close>.
\<close>

record ranked_row =
  rank :: nat
  row_stock_code :: pystr
  row_company_name :: pystr
  row_industry_name :: pystr
  row_index :: rat
  row_term_freq :: int

datatype element =
    Success pystr
  | Error_not_found
  | Error_load_failed exn
  | Error_traceback exn
  | Title
  | Rule
  | Sidebar_header
  | Select_year "int list" int
  | Sidebar_warning
  | Select_industry "pystr list"
  | Text_input_company
  | Text_input_stock
  | Metric_count nat
  | Warning_no_data
  | Metric_avg pystr
  | Metric_max int
  | Metric_min int
  | Subheader_distribution
  | Histogram "rat list" int
  | Subheader_ranking
  | Dataframe "ranked_row list"
  | Subheader_industry
  | Bar_chart "(pystr \<times> rat) list" int
  | Info_no_known_industry

text \<open>A run ends normally, or an exception nobody catches ends it after some output.\<close>

datatype run = Finished "element list" | Crashed "element list" exn

text \<open>\<^verbatim>\<open>int(x)\<close> of a float: truncation towards zero.\<close>

definition py_int :: "rat \<Rightarrow> int" where
  "py_int x = (if 0 \<le> x then \<lfloor>x\<rfloor> else \<lceil>x\<rceil>)"

definition series_max :: "rat list \<Rightarrow> rat" where
  "series_max xs = Max (set xs)"

definition series_min :: "rat list \<Rightarrow> rat" where
  "series_min xs = Min (set xs)"

text \<open>\<^verbatim>\<open>sorted(df[col].unique())\<close>.\<close>

definition years :: "table \<Rightarrow> int list" where
  "years df = sort (remdups (map col_year df))"

definition industries :: "table \<Rightarrow> pystr list" where
  "industries df = industry_all # sort (remdups (map col_industry_name df))"

fun list_index :: "'a list \<Rightarrow> 'a \<Rightarrow> nat" where
  "list_index [] x = 0"
| "list_index (y # ys) x = (if y = x then 0 else Suc (list_index ys x))"

definition default_index :: "int list \<Rightarrow> int" where
  "default_index ys = (if 2021 \<in> set ys then int (list_index ys 2021) else int (length ys) - 1)"

definition sidebar :: "table \<Rightarrow> selections \<Rightarrow> element list" where
  "sidebar df sel =
     [Sidebar_header, Select_year (years df) (default_index (years df))]
     @ (if selected_year sel > 2021 then [Sidebar_warning] else [])
     @ [Select_industry (industries df), Text_input_company, Text_input_stock]"

text \<open>Lines 102 to 119: the count tile comes before the test for an empty view.\<close>

definition overview :: "pylib \<Rightarrow> table \<Rightarrow> element list" where
  "overview lib view =
     Metric_count (length view) #
     (if view = [] then [Warning_no_data]
      else [Metric_avg (format_1f lib (series_mean lib (map col_index view))),
            Metric_max (py_int (series_max (map col_index view))),
            Metric_min (py_int (series_min (map col_index view)))])"

definition histogram_section :: "table \<Rightarrow> int \<Rightarrow> element list" where
  "histogram_section view y =
     Subheader_distribution # (if view \<noteq> [] then [Histogram (map col_index view) y] else [])"

text \<open>
  \<^verbatim>\<open>sort_values(ascending=False)\<close>: pandas reverses the rows, sorts them ascending by
  the key and reverses the result. The sort of the library is taken to be stable here;
  how it orders rows of equal key is used by no theorem below.
\<close>

definition sort_values_desc :: "('a \<Rightarrow> 'k::linorder) \<Rightarrow> 'a list \<Rightarrow> 'a list" where
  "sort_values_desc key xs = rev (sort_key key (rev xs))"

definition project_row :: "nat \<Rightarrow> firm_year \<Rightarrow> ranked_row" where
  "project_row k r =
     \<lparr>rank = k, row_stock_code = col_stock_code r, row_company_name = col_company_name r,
      row_industry_name = col_industry_name r, row_index = col_index r,
      row_term_freq = col_term_freq r\<rparr>"

definition display_df :: "table \<Rightarrow> ranked_row list" where
  "display_df view =
     (let ranked_df = sort_values_desc col_index view;
          top = take 20 ranked_df
      in map2 project_row [1 ..< length top + 1] top)"

definition ranking_section :: "table \<Rightarrow> element list" where
  "ranking_section view =
     Subheader_ranking # (if view \<noteq> [] then [Dataframe (display_df view)] else [])"

text \<open>\<^verbatim>\<open>groupby(name)[index].mean()\<close>: one entry per industry name, the names in
  ascending order, each with the mean of the index values of its rows.\<close>

definition groupby_mean :: "pylib \<Rightarrow> table \<Rightarrow> (pystr \<times> rat) list" where
  "groupby_mean lib rows =
     map (\<lambda>g. (g, series_mean lib (map col_index (filter (\<lambda>r. col_industry_name r = g) rows))))
         (sort (remdups (map col_industry_name rows)))"

definition industry_avg :: "pylib \<Rightarrow> table \<Rightarrow> (pystr \<times> rat) list" where
  "industry_avg lib year_data = sort_values_desc snd (groupby_mean lib year_data)"

definition industry_avg_non_unknown :: "(pystr \<times> rat) list \<Rightarrow> (pystr \<times> rat) list" where
  "industry_avg_non_unknown avg = boolean_index avg (map (\<lambda>g. fst g \<noteq> unknown_industry) avg)"

definition industry_section :: "pylib \<Rightarrow> table \<Rightarrow> int \<Rightarrow> element list" where
  "industry_section lib df y =
     (let year_data = filter_year df y;
          avg = industry_avg lib year_data
      in Subheader_industry #
         (if length avg > 1
          then (if length (industry_avg_non_unknown avg) > 0
                then [Bar_chart (take 10 (industry_avg_non_unknown avg)) y]
                else [Info_no_known_industry])
          else []))"

text \<open>
  The page body, lines 56 to 160, for a loaded table. A select box without options
  returns \<^verbatim>\<open>None\<close>, and the comparison of line 73 then raises \<^verbatim>\<open>TypeError\<close>.
  An exception of a text search ends the run after the sidebar.
\<close>

definition main :: "pylib \<Rightarrow> table \<Rightarrow> selections \<Rightarrow> run" where
  "main lib df sel =
     (if years df = []
      then Crashed [Title, Rule, Sidebar_header, Select_year [] (default_index [])] Type_error
      else (case filtered_df lib df sel of
              Inl e \<Rightarrow> Crashed ([Title, Rule] @ sidebar df sel) e
            | Inr view \<Rightarrow>
                Finished ([Title, Rule] @ sidebar df sel @ overview lib view
                          @ histogram_section view (selected_year sel)
                          @ ranking_section view
                          @ industry_section lib df (selected_year sel))))"

section \<open>The loader\<close>

text \<open>
  A row as \<^verbatim>\<open>read_excel\<close> returns it: the stock code and the year are cells of the
  file's own type \<open>'c\<close>, the industry fields may be missing. The file has the seven
  columns. The environment of \<^verbatim>\<open>load_data\<close>: which paths exist, what reading a
  path gives, and the two casts of pandas, each on a whole column; reading and the
  casts may raise.
\<close>

record 'c raw_row =
  raw_stock_code :: 'c
  raw_company_name :: pystr
  raw_industry_code :: "pystr option"
  raw_industry_name :: "pystr option"
  raw_year :: 'c
  raw_index :: rat
  raw_term_freq :: int

record 'c env =
  path_exists :: "pystr \<Rightarrow> bool"
  read_excel :: "pystr \<Rightarrow> exn + 'c raw_row list"
  astype_str :: "'c list \<Rightarrow> exn + pystr list"
  astype_int :: "'c list \<Rightarrow> exn + int list"

text \<open>The \<^verbatim>\<open>for ... else\<close> of lines 29 to 36: the first path that exists.\<close>

fun probe :: "(pystr \<Rightarrow> bool) \<Rightarrow> pystr list \<Rightarrow> pystr option" where
  "probe ex [] = None"
| "probe ex (p # ps) = (if ex p then Some p else probe ex ps)"

definition fillna :: "pystr \<Rightarrow> pystr option \<Rightarrow> pystr" where
  "fillna d v = (case v of None \<Rightarrow> d | Some s \<Rightarrow> s)"

definition normalised_row :: "'c raw_row \<Rightarrow> pystr \<Rightarrow> int \<Rightarrow> firm_year" where
  "normalised_row r code y =
     \<lparr>col_stock_code = code, col_company_name = raw_company_name r,
      col_industry_code = fillna unknown_code (raw_industry_code r),
      col_industry_name = fillna unknown_industry (raw_industry_name r),
      col_year = y, col_index = raw_index r, col_term_freq = raw_term_freq r\<rparr>"

text \<open>Lines 39 to 44.\<close>

definition normalise :: "'c env \<Rightarrow> 'c raw_row list \<Rightarrow> exn + table" where
  "normalise env raw =
     (case astype_str env (map raw_stock_code raw) of
        Inl e \<Rightarrow> Inl e
      | Inr codes \<Rightarrow>
          (case astype_int env (map raw_year raw) of
             Inl e \<Rightarrow> Inl e
           | Inr ys \<Rightarrow> Inr (map (\<lambda>(r, code, y). normalised_row r code y) (zip raw (zip codes ys)))))"

text \<open>\<^verbatim>\<open>load_data\<close>: the messages it shows and the table, \<open>None\<close> for Python's
  \<^verbatim>\<open>None\<close>. The \<^verbatim>\<open>except\<close> branch catches what reading and the casts raise.\<close>

definition load_data :: "'c env \<Rightarrow> element list \<times> table option" where
  "load_data env =
     (case probe (path_exists env) possible_paths of
        None \<Rightarrow> ([Error_not_found], None)
      | Some path \<Rightarrow>
          (case read_excel env path of
             Inl e \<Rightarrow> ([Error_load_failed e, Error_traceback e], None)
           | Inr raw \<Rightarrow>
               (case normalise env raw of
                  Inl e \<Rightarrow> ([Success path, Error_load_failed e, Error_traceback e], None)
                | Inr df \<Rightarrow> ([Success path], Some df))))"

text \<open>The whole script: \<^verbatim>\<open>df = load_data()\<close>, then the body under
  \<^verbatim>\<open>if df is not None\<close>.\<close>

definition app :: "'c env \<Rightarrow> pylib \<Rightarrow> selections \<Rightarrow> run" where
  "app env lib sel =
     (case load_data env of
        (msgs, None) \<Rightarrow> Finished msgs
      | (msgs, Some df) \<Rightarrow>
          (case main lib df sel of
             Finished out \<Rightarrow> Finished (msgs @ out)
           | Crashed out e \<Rightarrow> Crashed (msgs @ out) e))"

section \<open>An instance of the library and a small table\<close>

text \<open>
  For the examples: the mean in exact arithmetic, the format with one decimal rounding
  half to even, the comparison of characters that ignores the case of the ASCII
  letters, and no regular expression beyond those \<open>re_compile\<close> interprets.
\<close>

definition exact_mean :: "rat list \<Rightarrow> rat" where
  "exact_mean xs = sum_list xs / of_nat (length xs)"

definition round_half_even :: "rat \<Rightarrow> int" where
  "round_half_even q =
     (let f = \<lfloor>q\<rfloor>; d = q - of_int f
      in if d < 1 / 2 then f else if 1 / 2 < d then f + 1 else if even f then f else f + 1)"

fun digits :: "nat \<Rightarrow> pystr" where
  "digits n = (if n < 10 then [48 + n] else digits (n div 10) @ [48 + n mod 10])"

definition fmt_1f :: "rat \<Rightarrow> pystr" where
  "fmt_1f x =
     (let t = nat \<bar>round_half_even (10 * x)\<bar>
      in (if x < 0 then [0x2D] else []) @ digits (t div 10) @ [0x2E] @ digits (t mod 10))"

definition ascii_lower :: "nat \<Rightarrow> nat" where
  "ascii_lower c = (if 65 \<le> c \<and> c \<le> 90 then c + 32 else c)"

definition ascii_ci_eq :: "nat \<Rightarrow> nat \<Rightarrow> bool" where
  "ascii_ci_eq c d = (ascii_lower c = ascii_lower d)"

definition example_lib :: pylib where
  "example_lib =
     \<lparr>series_mean = exact_mean, format_1f = fmt_1f, ci_eq = ascii_ci_eq,
      re_compile_other = (\<lambda>pat. Inl Re_error)\<rparr>"

definition mk_row :: "string \<Rightarrow> string \<Rightarrow> pystr \<Rightarrow> int \<Rightarrow> rat \<Rightarrow> firm_year" where
  "mk_row code name ind y x =
     \<lparr>col_stock_code = pystr code, col_company_name = pystr name,
      col_industry_code = pystr ''J'', col_industry_name = ind,
      col_year = y, col_index = x, col_term_freq = 0\<rparr>"

text \<open>The table of the spec's example: year 2021, two rows of the industry Finance with
  the indices 80 and 90, one row of the unknown industry with the index 10.\<close>

definition example_df :: table where
  "example_df =
     [mk_row ''000001'' ''Alpha Bank'' (pystr ''Finance'') 2021 80,
      mk_row ''000002'' ''Beta Trust'' (pystr ''Finance'') 2021 90,
      mk_row ''000003'' ''Gamma'' unknown_industry 2021 10]"

definition select :: "int \<Rightarrow> pystr \<Rightarrow> string \<Rightarrow> string \<Rightarrow> selections" where
  "select y ind name code =
     \<lparr>selected_year = y, selected_industry = ind, company_name = pystr name,
      stock_code = pystr code\<rparr>"

section \<open>Reading a run\<close>

definition rendered :: "run \<Rightarrow> element list" where
  "rendered r = (case r of Finished out \<Rightarrow> out | Crashed out e \<Rightarrow> out)"

text \<open>The elements computed from the rows of the filtered view, other than their count:
  the mean, maximum and minimum tiles, the histogram and the ranked table.\<close>

fun view_content :: "element \<Rightarrow> bool" where
  "view_content (Metric_avg s) = True"
| "view_content (Metric_max n) = True"
| "view_content (Metric_min n) = True"
| "view_content (Histogram xs y) = True"
| "view_content (Dataframe rs) = True"
| "view_content e = False"

text \<open>The messages of \<^verbatim>\<open>load_data\<close>; every other element belongs to the page body.\<close>

fun loader_message :: "element \<Rightarrow> bool" where
  "loader_message (Success p) = True"
| "loader_message Error_not_found = True"
| "loader_message (Error_load_failed e) = True"
| "loader_message (Error_traceback e) = True"
| "loader_message e = False"



section \<open>The ranked table in the spec's words\<close>


section \<open>More examples\<close>


text \<open>
  A file of one row, with integers as the cells of the stock code and the year, and an
  environment around it: whether the third candidate path exists (the other two do
  not), what reading gives, and what the cast of the year column gives.
\<close>

definition raw_example :: "int raw_row list" where
  "raw_example =
     [\<lparr>raw_stock_code = 1, raw_company_name = pystr ''Alpha Bank'',
       raw_industry_code = None, raw_industry_name = None,
       raw_year = 2021, raw_index = 80, raw_term_freq = 5\<rparr>]"

definition example_env ::
  "bool \<Rightarrow> (exn + int raw_row list) \<Rightarrow> (int list \<Rightarrow> exn + int list) \<Rightarrow> int env" where
  "example_env present rd cast =
     \<lparr>path_exists = (\<lambda>p. present \<and> p = pystr ''/app/'' @ data_file),
      read_excel = (\<lambda>p. rd),
      astype_str = (\<lambda>cs. Inr (map (\<lambda>c. digits (nat c)) cs)),
      astype_int = cast\<rparr>"

section \<open>Facts about the filters\<close>

lemma boolean_index_map: "boolean_index xs (map p xs) = filter p xs"
  by (induction xs) (simp_all add: boolean_index_def)

lemma filter_year_filter: "filter_year df y = filter (\<lambda>r. col_year r = y) df"
  by (simp add: filter_year_def boolean_index_map)

lemma filter_industry_filter:
  "filter_industry view ind =
     (if ind \<noteq> industry_all then filter (\<lambda>r. col_industry_name r = ind) view else view)"
  by (simp add: filter_industry_def boolean_index_map)

lemma years_distinct: "distinct (years df)"
  by (simp add: years_def)

lemma years_set: "set (years df) = col_year ` set df"
  by (simp add: years_def)

text \<open>Splitting a list by the value of a key, over a duplicate-free list of the keys,
  gives back every element once.\<close>

lemma sum_list_mset_filter_key:
  assumes "distinct ys" and "set (map f xs) \<subseteq> set ys"
  shows "sum_list (map (\<lambda>y. mset (filter (\<lambda>r. f r = y) xs)) ys) = mset xs"
  using assms(2)
proof (induction xs)
  case Nil
  then show ?case by simp
next
  case (Cons x xs)
  have mem: "f x \<in> set ys" using Cons.prems by simp
  have one: "sum_list (map (\<lambda>y. if f x = y then {#x#} else {#}) ys) = {#x#}"
    using assms(1) mem by (simp add: sum_list_distinct_conv_sum_set)
  have split: "(\<lambda>y. mset (filter (\<lambda>r. f r = y) (x # xs)))
             = (\<lambda>y. (if f x = y then {#x#} else {#}) + mset (filter (\<lambda>r. f r = y) xs))"
    by (rule ext) simp
  have "sum_list (map (\<lambda>y. mset (filter (\<lambda>r. f r = y) (x # xs))) ys)
      = sum_list (map (\<lambda>y. if f x = y then {#x#} else {#}) ys)
        + sum_list (map (\<lambda>y. mset (filter (\<lambda>r. f r = y) xs)) ys)"
    unfolding split by (simp add: sum_list_addf)
  also have "\<dots> = {#x#} + mset xs"
    using one Cons by simp
  finally show ?case by simp
qed

text \<open>
  C5. Filtering a table by a year returns exactly its records of that year, in their
  order, and the filtered subsets over the distinct years of the table add up to the
  table: every record is in the subset of one year, once.
\<close>

theorem year_filter_partition:
  "filter_year df y = filter (\<lambda>r. col_year r = y) df
   \<and> set (filter_year df y) = {r \<in> set df. col_year r = y}
   \<and> sum_list (map (\<lambda>y. mset (filter_year df y)) (years df)) = mset df"
proof -
  have "sum_list (map (\<lambda>y. mset (filter (\<lambda>r. col_year r = y) df)) (years df)) = mset df"
    by (rule sum_list_mset_filter_key) (simp_all add: years_distinct years_set)
  then show ?thesis by (simp add: filter_year_filter)
qed

section \<open>Facts about the ranking\<close>















text \<open>A view with rows has its ranked table on the page.\<close>

lemma ranking_section_nonempty:
  "view \<noteq> [] \<Longrightarrow> ranking_section view = [Subheader_ranking, Dataframe (display_df view)]"
  by (simp add: ranking_section_def)


section \<open>Facts about the sentinels\<close>

text \<open>
  C7. The industry criterion \<open>industry_all\<close> and an empty text criterion each leave
  their stage's input as it is, so the filtered view with such a criterion is the view
  of the pipeline without that stage: with the industry filter left out, with the
  company-name search left out, with the stock-code search left out.
\<close>

theorem sentinels_are_noops:
  "filter_industry view industry_all = view
   \<and> filter_company lib view [] = Inr view
   \<and> filter_stock lib view [] = Inr view
   \<and> filtered_df lib df (sel\<lparr>selected_industry := industry_all\<rparr>) =
       (case filter_company lib (filter_year df (selected_year sel)) (company_name sel) of
          Inl e \<Rightarrow> Inl e
        | Inr v \<Rightarrow> filter_stock lib v (stock_code sel))
   \<and> filtered_df lib df (sel\<lparr>company_name := []\<rparr>) =
       filter_stock lib
         (filter_industry (filter_year df (selected_year sel)) (selected_industry sel))
         (stock_code sel)
   \<and> filtered_df lib df (sel\<lparr>stock_code := []\<rparr>) =
       filter_company lib
         (filter_industry (filter_year df (selected_year sel)) (selected_industry sel))
         (company_name sel)"
  by (simp add: filtered_df_def filter_industry_def filter_company_def filter_stock_def
      split: sum.splits)

section \<open>Facts about the text searches\<close>

lemma plain_in_fragment: "plain s \<Longrightarrow> in_fragment s"
  by (simp add: plain_def in_fragment_def list_all_iff)

lemma plain_hd: "plain s \<Longrightarrow> \<not> (s \<noteq> [] \<and> hd s \<in> set repeat_chars)"
  by (cases s) (auto simp: plain_def re_special_def repeat_chars_def)

lemma plain_parse: "plain s \<Longrightarrow> map parse_atom s = map Lit s"
  by (induction s) (auto simp: plain_def parse_atom_def re_special_def)

lemma match_here_lits:
  "match_here ceq (map Lit s) x = (length s \<le> length x \<and> list_all2 ceq s (take (length s) x))"
proof (induction s arbitrary: x)
  case Nil
  then show ?case by simp
next
  case (Cons c s)
  then show ?case by (cases x) auto
qed

lemma re_search_suffixes: "re_search ceq as x = list_ex (match_here ceq as) (suffixes x)"
  by (induction x) (auto simp: list_ex_iff)

lemma re_search_plain:
  assumes "plain s"
  shows "re_search ceq (map parse_atom s) x = ci_substring ceq s x"
proof -
  have "match_here ceq (map Lit s)
      = (\<lambda>t. length s \<le> length t \<and> list_all2 ceq s (take (length s) t))"
    by (rule ext) (rule match_here_lits)
  then show ?thesis
    by (simp add: plain_parse [OF assms] re_search_suffixes ci_substring_def)
qed

lemma ci_substring_iff:
  "ci_substring ceq s x \<longleftrightarrow> (\<exists>pre mid post. x = pre @ mid @ post \<and> list_all2 ceq s mid)"
proof
  assume "ci_substring ceq s x"
  then obtain t where t: "suffix t x" "length s \<le> length t" "list_all2 ceq s (take (length s) t)"
    by (auto simp: ci_substring_def list_ex_iff)
  from t(1) obtain pre where "x = pre @ t" by (auto simp: suffix_def)
  then have "x = pre @ take (length s) t @ drop (length s) t" by simp
  with t(3) show "\<exists>pre mid post. x = pre @ mid @ post \<and> list_all2 ceq s mid" by blast
next
  assume "\<exists>pre mid post. x = pre @ mid @ post \<and> list_all2 ceq s mid"
  then obtain pre mid post where x: "x = pre @ mid @ post" and m: "list_all2 ceq s mid"
    by blast
  from m have len: "length s = length mid" by (rule list_all2_lengthD)
  have "suffix (mid @ post) x" using x by (simp add: suffix_def)
  moreover have "length s \<le> length (mid @ post)" using len by simp
  moreover have "list_all2 ceq s (take (length s) (mid @ post))" using m len by simp
  ultimately show "ci_substring ceq s x"
    unfolding ci_substring_def list_ex_iff by (metis in_set_suffixes)
qed

lemma str_contains_plain:
  assumes "plain s"
  shows "str_contains lib s col = Inr (map (ci_substring (ci_eq lib) s) col)"
proof -
  have "re_compile lib s = Inr (re_search (ci_eq lib) (map parse_atom s))"
    using plain_hd [OF assms] plain_in_fragment [OF assms] by (simp add: re_compile_def)
  moreover have "re_search (ci_eq lib) (map parse_atom s) = ci_substring (ci_eq lib) s"
    by (rule ext) (rule re_search_plain [OF assms])
  ultimately show ?thesis by (simp add: str_contains_def)
qed

lemma filter_company_plain:
  assumes "plain s"
  shows "filter_company lib view s =
           Inr (filter (\<lambda>r. s \<noteq> [] \<longrightarrow> ci_substring (ci_eq lib) s (col_company_name r)) view)"
proof -
  have "boolean_index view (map (ci_substring (ci_eq lib) s) (map col_company_name view))
      = filter (\<lambda>r. ci_substring (ci_eq lib) s (col_company_name r)) view"
    using boolean_index_map [of view "\<lambda>r. ci_substring (ci_eq lib) s (col_company_name r)"]
    by (simp add: comp_def)
  then show ?thesis
    by (simp add: filter_company_def str_contains_plain [OF assms])
qed

lemma filter_stock_plain:
  assumes "plain s"
  shows "filter_stock lib view s =
           Inr (filter (\<lambda>r. s \<noteq> [] \<longrightarrow> ci_substring (ci_eq lib) s (col_stock_code r)) view)"
proof -
  have "boolean_index view (map (ci_substring (ci_eq lib) s) (map col_stock_code view))
      = filter (\<lambda>r. ci_substring (ci_eq lib) s (col_stock_code r)) view"
    using boolean_index_map [of view "\<lambda>r. ci_substring (ci_eq lib) s (col_stock_code r)"]
    by (simp add: comp_def)
  then show ?thesis
    by (simp add: filter_stock_def str_contains_plain [OF assms])
qed

text \<open>
  C3, as amended. When the company-name and stock-code search strings contain none of
  the special characters of the regular expression syntax, the filtered view is exactly
  the rows of the table of the selected year, of the selected industry unless it is
  \<open>industry_all\<close>, whose company name contains the company-name string, unless it is
  empty, and whose stock code contains the stock-code string, unless it is empty, as a
  literal substring with letter case ignored.
\<close>

theorem text_search_plain:
  assumes "plain (company_name sel)" and "plain (stock_code sel)"
  shows "filtered_df lib df sel =
           Inr (filter (\<lambda>r. col_year r = selected_year sel
                  \<and> (selected_industry sel \<noteq> industry_all
                       \<longrightarrow> col_industry_name r = selected_industry sel)
                  \<and> (company_name sel \<noteq> []
                       \<longrightarrow> ci_substring (ci_eq lib) (company_name sel) (col_company_name r))
                  \<and> (stock_code sel \<noteq> []
                       \<longrightarrow> ci_substring (ci_eq lib) (stock_code sel) (col_stock_code r))) df)"
  by (auto simp: filtered_df_def filter_company_plain [OF assms(1)] filter_stock_plain [OF assms(2)]
       filter_year_filter filter_industry_filter intro: filter_cong)

lemma pystr_simps [simp]: "pystr [] = []" "pystr (c # cs) = of_char c # pystr cs"
  by (simp_all add: pystr_def)

theorem text_search_plain_witness:
  "plain (pystr ''BANK'') \<and> plain (pystr '''')
   \<and> filtered_df example_lib example_df (select 2021 industry_all ''BANK'' '''')
       = Inr [hd example_df]"
  using text_search_plain [of "select 2021 industry_all ''BANK'' ''''" example_lib example_df]
  by (simp add: plain_def re_special_def select_def example_df_def mk_row_def example_lib_def
      ci_substring_def ascii_ci_eq_def ascii_lower_def industry_all_def unknown_industry_def)

text \<open>
  C3 as stated fails: the search string is compiled as a regular expression. With the
  company-name string \<^verbatim>\<open>.\<close> every row of the example table stays in the view, and
  the name of its first row, Alpha Bank, has no dot in it.
\<close>

theorem text_search_counterexample:
  "filtered_df example_lib example_df (select 2021 industry_all ''.'' '''') = Inr example_df
   \<and> \<not> ci_substring (ci_eq example_lib) (pystr ''.'') (col_company_name (hd example_df))"
  by (simp add: filtered_df_def filter_company_def filter_stock_def filter_industry_def
      filter_year_def boolean_index_def str_contains_def re_compile_def in_fragment_def
      re_special_def repeat_chars_def parse_atom_def
      select_def example_df_def mk_row_def example_lib_def
      ci_substring_def ascii_ci_eq_def ascii_lower_def industry_all_def unknown_industry_def)

text \<open>A search string that starts with a repetition character, such as \<^verbatim>\<open>*ST\<close>,
  does not compile: the text search raises and no view is produced.\<close>

lemma text_search_repeat_error:
  "filtered_df example_lib example_df (select 2021 industry_all ''*ST'' '''') = Inl Re_error"
  by (simp add: filtered_df_def filter_company_def str_contains_def re_compile_def
      repeat_chars_def select_def)

section \<open>Facts about the rendering of an empty view\<close>

lemma years_nonempty: "df \<noteq> [] \<Longrightarrow> years df \<noteq> []"
  using years_set [of df] by (cases df) auto

lemma sidebar_no_view_content: "filter view_content (sidebar df sel) = []"
  by (simp add: sidebar_def)

lemma industry_section_no_view_content: "filter view_content (industry_section lib df y) = []"
  by (simp add: industry_section_def Let_def)

lemma main_empty_view:
  assumes "df \<noteq> []" and "filtered_df lib df sel = Inr []"
  shows "main lib df sel =
           Finished ([Title, Rule] @ sidebar df sel
                     @ [Metric_count 0, Warning_no_data, Subheader_distribution, Subheader_ranking]
                     @ industry_section lib df (selected_year sel))"
  using years_nonempty [OF assms(1)] assms(2)
  by (simp add: main_def overview_def histogram_section_def ranking_section_def)

text \<open>
  C1, as amended. For every loaded table with rows and every combination of criteria
  whose filtered view is empty, the page body is the title, the rule and the sidebar,
  the count tile showing 0, the warning, the headings of the histogram and of the
  ranking with nothing under them, and the industry comparison of the selected year:
  no mean, maximum or minimum tile, no histogram and no ranked table is rendered.
\<close>

theorem empty_view_rendering:
  assumes "df \<noteq> []" and "filtered_df lib df sel = Inr []"
  shows "main lib df sel =
           Finished ([Title, Rule] @ sidebar df sel
                     @ [Metric_count 0, Warning_no_data, Subheader_distribution, Subheader_ranking]
                     @ industry_section lib df (selected_year sel))
         \<and> filter view_content (rendered (main lib df sel)) = []"
  by (simp add: main_empty_view [OF assms] rendered_def sidebar_no_view_content
      industry_section_no_view_content)

lemma example_no_match:
  "filtered_df example_lib example_df (select 2021 industry_all ''zzz'' '''') = Inr []"
  by (simp add: filtered_df_def filter_company_def filter_stock_def filter_industry_def
      filter_year_def boolean_index_def str_contains_def re_compile_def in_fragment_def
      re_special_def repeat_chars_def parse_atom_def
      select_def example_df_def mk_row_def example_lib_def
      ascii_ci_eq_def ascii_lower_def industry_all_def unknown_industry_def)

lemma example_df_nonempty: "example_df \<noteq> []"
  by (simp add: example_df_def)

theorem empty_view_rendering_witness:
  "example_df \<noteq> []
   \<and> filtered_df example_lib example_df (select 2021 industry_all ''zzz'' '''') = Inr []
   \<and> filter view_content
        (rendered (main example_lib example_df (select 2021 industry_all ''zzz'' ''''))) = []"
  using empty_view_rendering [OF example_df_nonempty example_no_match]
    example_df_nonempty example_no_match
  by blast

text \<open>
  C1 as stated fails: line 105 renders the count tile before line 107 tests the view.
  With the company-name string \<^verbatim>\<open>zzz\<close> the view of the example table is empty, and
  the metric tile of the count, showing 0, is on the page.
\<close>

theorem empty_view_counterexample:
  "filtered_df example_lib example_df (select 2021 industry_all ''zzz'' '''') = Inr []
   \<and> Metric_count 0
       \<in> set (rendered (main example_lib example_df (select 2021 industry_all ''zzz'' '''')))"
  by (simp add: main_empty_view [OF example_df_nonempty example_no_match] example_no_match
      rendered_def)

section \<open>Facts about finished runs\<close>





section \<open>Facts about the industry comparison\<close>














lemma pystr_eval: "pystr ''Finance'' = [70, 105, 110, 97, 110, 99, 101]"
  by simp
















section \<open>Facts about the loader\<close>

lemma probe_None: "probe ex ps = None \<longleftrightarrow> list_all (\<lambda>p. \<not> ex p) ps"
  by (induction ps) simp_all

lemma probe_Some:
  "probe ex ps = Some p \<longleftrightarrow>
     (\<exists>pre post. ps = pre @ p # post \<and> ex p \<and> list_all (\<lambda>q. \<not> ex q) pre)"
proof (induction ps)
  case Nil
  then show ?case by simp
next
  case (Cons a ps)
  show ?case
  proof (cases "ex a")
    case True
    have "(\<exists>pre post. a # ps = pre @ p # post \<and> ex p \<and> list_all (\<lambda>q. \<not> ex q) pre)
          \<longleftrightarrow> a = p"
    proof
      assume "\<exists>pre post. a # ps = pre @ p # post \<and> ex p \<and> list_all (\<lambda>q. \<not> ex q) pre"
      then obtain pre post where *: "a # ps = pre @ p # post" "list_all (\<lambda>q. \<not> ex q) pre"
        by blast
      with True show "a = p" by (cases pre) auto
    next
      assume "a = p"
      with True have "a # ps = [] @ p # ps \<and> ex p \<and> list_all (\<lambda>q. \<not> ex q) []" by simp
      then show "\<exists>pre post. a # ps = pre @ p # post \<and> ex p \<and> list_all (\<lambda>q. \<not> ex q) pre"
        by blast
    qed
    with True show ?thesis by simp
  next
    case False
    have "(\<exists>pre post. a # ps = pre @ p # post \<and> ex p \<and> list_all (\<lambda>q. \<not> ex q) pre)
          \<longleftrightarrow> (\<exists>pre post. ps = pre @ p # post \<and> ex p \<and> list_all (\<lambda>q. \<not> ex q) pre)"
    proof
      assume "\<exists>pre post. a # ps = pre @ p # post \<and> ex p \<and> list_all (\<lambda>q. \<not> ex q) pre"
      then obtain pre post where *: "a # ps = pre @ p # post" "ex p" "list_all (\<lambda>q. \<not> ex q) pre"
        by blast
      with False obtain pre' where "pre = a # pre'" by (cases pre) auto
      with * have "ps = pre' @ p # post \<and> ex p \<and> list_all (\<lambda>q. \<not> ex q) pre'" by simp
      then show "\<exists>pre post. ps = pre @ p # post \<and> ex p \<and> list_all (\<lambda>q. \<not> ex q) pre"
        by blast
    next
      assume "\<exists>pre post. ps = pre @ p # post \<and> ex p \<and> list_all (\<lambda>q. \<not> ex q) pre"
      then obtain pre post where "ps = pre @ p # post" "ex p" "list_all (\<lambda>q. \<not> ex q) pre"
        by blast
      with False have "a # ps = (a # pre) @ p # post \<and> ex p \<and> list_all (\<lambda>q. \<not> ex q) (a # pre)"
        by simp
      then show "\<exists>pre post. a # ps = pre @ p # post \<and> ex p \<and> list_all (\<lambda>q. \<not> ex q) pre"
        by blast
    qed
    with False Cons show ?thesis by simp
  qed
qed

lemma load_data_cases:
  "load_data env = ([Error_not_found], None)
   \<or> (\<exists>e. load_data env = ([Error_load_failed e, Error_traceback e], None))
   \<or> (\<exists>p e. load_data env = ([Success p, Error_load_failed e, Error_traceback e], None))
   \<or> (\<exists>p df. load_data env = ([Success p], Some df))"
  by (simp add: load_data_def split: option.splits sum.splits)

lemma load_data_absent:
  assumes "snd (load_data env) = None"
  shows "app env lib sel = Finished (fst (load_data env))"
    and "list_all loader_message (fst (load_data env))"
    and "Error_not_found \<in> set (fst (load_data env))
         \<or> (\<exists>e. Error_load_failed e \<in> set (fst (load_data env)))"
proof -
  show "app env lib sel = Finished (fst (load_data env))"
    using assms by (cases "load_data env") (simp add: app_def)
  show "list_all loader_message (fst (load_data env))"
    using load_data_cases [of env] by auto
  show "Error_not_found \<in> set (fst (load_data env))
         \<or> (\<exists>e. Error_load_failed e \<in> set (fst (load_data env)))"
    using load_data_cases [of env] assms by auto
qed

text \<open>
  C9. The loader takes the first of its candidate paths, in their order, that exists.
  When none exists it shows the not-found error and returns no table; when reading the
  path raises it shows the failure and the trace and returns no table; when the
  normalisation raises it does the same after the success message of the read; when
  neither raises it returns the normalised table. Whenever it returns no table, the
  run finishes with the loader's messages alone, an error among them: nothing of the
  page body is rendered.
\<close>

theorem load_failure_renders_nothing:
  "(probe (path_exists env) possible_paths = Some p \<longleftrightarrow>
      (\<exists>pre post. possible_paths = pre @ p # post \<and> path_exists env p
                  \<and> list_all (\<lambda>q. \<not> path_exists env q) pre))
   \<and> (list_all (\<lambda>q. \<not> path_exists env q) possible_paths \<longrightarrow>
        load_data env = ([Error_not_found], None))
   \<and> (probe (path_exists env) possible_paths = Some p \<and> read_excel env p = Inl e \<longrightarrow>
        load_data env = ([Error_load_failed e, Error_traceback e], None))
   \<and> (probe (path_exists env) possible_paths = Some p \<and> read_excel env p = Inr raw
        \<and> normalise env raw = Inl e \<longrightarrow>
        load_data env = ([Success p, Error_load_failed e, Error_traceback e], None))
   \<and> (probe (path_exists env) possible_paths = Some p \<and> read_excel env p = Inr raw
        \<and> normalise env raw = Inr df \<longrightarrow>
        load_data env = ([Success p], Some df))
   \<and> (snd (load_data env) = None \<longrightarrow>
        app env lib sel = Finished (fst (load_data env))
        \<and> list_all loader_message (fst (load_data env))
        \<and> (Error_not_found \<in> set (fst (load_data env))
            \<or> (\<exists>e. Error_load_failed e \<in> set (fst (load_data env)))))"
proof (intro conjI impI)
  show "probe (path_exists env) possible_paths = Some p \<longleftrightarrow>
      (\<exists>pre post. possible_paths = pre @ p # post \<and> path_exists env p
                  \<and> list_all (\<lambda>q. \<not> path_exists env q) pre)"
    by (rule probe_Some)
  show "load_data env = ([Error_not_found], None)"
    if "list_all (\<lambda>q. \<not> path_exists env q) possible_paths"
    using that by (simp add: load_data_def probe_None [symmetric])
  show "load_data env = ([Error_load_failed e, Error_traceback e], None)"
    if "probe (path_exists env) possible_paths = Some p \<and> read_excel env p = Inl e"
    using that by (simp add: load_data_def)
  show "load_data env = ([Success p, Error_load_failed e, Error_traceback e], None)"
    if "probe (path_exists env) possible_paths = Some p \<and> read_excel env p = Inr raw
        \<and> normalise env raw = Inl e"
    using that by (simp add: load_data_def)
  show "load_data env = ([Success p], Some df)"
    if "probe (path_exists env) possible_paths = Some p \<and> read_excel env p = Inr raw
        \<and> normalise env raw = Inr df"
    using that by (simp add: load_data_def)
  show "app env lib sel = Finished (fst (load_data env))" if "snd (load_data env) = None"
    using that by (rule load_data_absent(1))
  show "list_all loader_message (fst (load_data env))" if "snd (load_data env) = None"
    using that by (rule load_data_absent(2))
  show "Error_not_found \<in> set (fst (load_data env))
            \<or> (\<exists>e. Error_load_failed e \<in> set (fst (load_data env)))"
    if "snd (load_data env) = None"
    using that by (rule load_data_absent(3))
qed


lemma paths_distinct:
  "data_file \<noteq> pystr ''/app/'' @ data_file"
  "pystr ''./'' @ data_file \<noteq> pystr ''/app/'' @ data_file"
  by (simp_all add: data_file_def)

lemma example_env_probe:
  "probe (path_exists (example_env False rd cast)) possible_paths = None"
  "probe (path_exists (example_env True rd cast)) possible_paths
     = Some (pystr ''/app/'' @ data_file)"
  by (simp_all add: example_env_def possible_paths_def paths_distinct)

lemma example_env_normalise:
  "normalise (example_env True rd (\<lambda>cs. Inl Type_error)) raw_example = Inl Type_error"
  "normalise (example_env True rd Inr) raw_example
     = Inr [\<lparr>col_stock_code = pystr ''1'', col_company_name = pystr ''Alpha Bank'',
             col_industry_code = unknown_code, col_industry_name = unknown_industry,
             col_year = 2021, col_index = 80, col_term_freq = 5\<rparr>]"
  by (simp_all add: normalise_def example_env_def raw_example_def normalised_row_def fillna_def)

theorem load_failure_renders_nothing_witness:
  "load_data (example_env False (Inr raw_example) Inr) = ([Error_not_found], None)
   \<and> app (example_env False (Inr raw_example) Inr) example_lib
         (select 2021 industry_all '''' '''') = Finished [Error_not_found]
   \<and> load_data (example_env True (Inl (Other_error (pystr ''bad file''))) Inr)
       = ([Error_load_failed (Other_error (pystr ''bad file'')),
           Error_traceback (Other_error (pystr ''bad file''))], None)
   \<and> load_data (example_env True (Inr raw_example) (\<lambda>cs. Inl Type_error))
       = ([Success (pystr ''/app/'' @ data_file), Error_load_failed Type_error,
           Error_traceback Type_error], None)
   \<and> load_data (example_env True (Inr raw_example) Inr)
       = ([Success (pystr ''/app/'' @ data_file)],
          Some [\<lparr>col_stock_code = pystr ''1'', col_company_name = pystr ''Alpha Bank'',
                  col_industry_code = unknown_code, col_industry_name = unknown_industry,
                  col_year = 2021, col_index = 80, col_term_freq = 5\<rparr>])"
proof -
  let ?p = "pystr ''/app/'' @ data_file"
  let ?sel = "select 2021 industry_all '''' ''''"
  let ?bad = "Other_error (pystr ''bad file'')"
  let ?E0 = "example_env False (Inr raw_example) Inr"
  let ?E1 = "example_env True (Inl ?bad) Inr"
  let ?E2 = "example_env True (Inr raw_example) (\<lambda>cs. Inl Type_error)"
  let ?E3 = "example_env True (Inr raw_example) Inr"
  have none: "list_all (\<lambda>q. \<not> path_exists ?E0 q) possible_paths"
    by (simp add: example_env_def list_all_iff)
  have a: "load_data ?E0 = ([Error_not_found], None)"
    using load_failure_renders_nothing [of ?E0] none by blast
  then have "snd (load_data ?E0) = None" by simp
  then have "app ?E0 example_lib ?sel = Finished (fst (load_data ?E0))"
    using load_failure_renders_nothing [of ?E0 _ _ _ _ example_lib ?sel] by blast
  then have b: "app ?E0 example_lib ?sel = Finished [Error_not_found]"
    using a by simp
  have "read_excel ?E1 ?p = Inl ?bad"
    by (simp add: example_env_def)
  then have c: "load_data ?E1 = ([Error_load_failed ?bad, Error_traceback ?bad], None)"
    using load_failure_renders_nothing [of ?E1 ?p ?bad] example_env_probe(2) by blast
  have "read_excel ?E2 ?p = Inr raw_example"
    by (simp add: example_env_def)
  then have d: "load_data ?E2
      = ([Success ?p, Error_load_failed Type_error, Error_traceback Type_error], None)"
    using load_failure_renders_nothing [of ?E2 ?p Type_error raw_example]
      example_env_probe(2) example_env_normalise(1) by blast
  have "read_excel ?E3 ?p = Inr raw_example"
    by (simp add: example_env_def)
  then have e: "load_data ?E3
      = ([Success ?p],
         Some [\<lparr>col_stock_code = pystr ''1'', col_company_name = pystr ''Alpha Bank'',
                 col_industry_code = unknown_code, col_industry_name = unknown_industry,
                 col_year = 2021, col_index = 80, col_term_freq = 5\<rparr>])"
    using load_failure_renders_nothing [of ?E3 ?p _ raw_example] example_env_probe(2)
      example_env_normalise(2) by blast
  show ?thesis
    using a b c d e by blast
qed

section \<open>Facts about the summary\<close>

text \<open>
  For a view with rows, the tiles are the count, the format of the library's mean, and
  the maximum and the minimum of the index column cut to integers towards zero. What
  the library's mean and format compute is float arithmetic, outside this model.
\<close>

lemma overview_nonempty:
  assumes "view \<noteq> []"
  shows "overview lib view =
           [Metric_count (length view),
            Metric_avg (format_1f lib (series_mean lib (map col_index view))),
            Metric_max (py_int (Max (col_index ` set view))),
            Metric_min (py_int (Min (col_index ` set view)))]"
  using assms by (simp add: overview_def series_max_def series_min_def)

lemma py_int_truncates:
  "\<bar>of_int (py_int x)\<bar> \<le> \<bar>x\<bar>" and "\<bar>x - of_int (py_int x)\<bar> < 1"
proof -
  have fl: "of_int \<lfloor>x\<rfloor> \<le> x" "x < of_int \<lfloor>x\<rfloor> + 1" by linarith+
  have ce: "x \<le> of_int \<lceil>x\<rceil>" "of_int \<lceil>x\<rceil> < x + 1" by linarith+
  show "\<bar>of_int (py_int x)\<bar> \<le> \<bar>x\<bar>"
  proof (cases "0 \<le> x")
    case True
    then have "0 \<le> \<lfloor>x\<rfloor>" by simp
    then have "(0::rat) \<le> of_int \<lfloor>x\<rfloor>" by simp
    moreover from True have "py_int x = \<lfloor>x\<rfloor>" by (simp add: py_int_def)
    ultimately show ?thesis using fl True by linarith
  next
    case False
    then have "\<lceil>x\<rceil> \<le> 0" by (simp add: ceiling_le_iff)
    then have "of_int \<lceil>x\<rceil> \<le> (0::rat)" by simp
    moreover from False have "py_int x = \<lceil>x\<rceil>" by (simp add: py_int_def)
    ultimately show ?thesis using ce False by linarith
  qed
  show "\<bar>x - of_int (py_int x)\<bar> < 1"
  proof (cases "0 \<le> x")
    case True
    then have "py_int x = \<lfloor>x\<rfloor>" by (simp add: py_int_def)
    then show ?thesis using fl by linarith
  next
    case False
    then have "py_int x = \<lceil>x\<rceil>" by (simp add: py_int_def)
    then show ?thesis using ce by linarith
  qed
qed

text \<open>The spec's example: three rows, mean 60.0, maximum 90, minimum 10.\<close>

lemma example_overview:
  "overview example_lib example_df
     = [Metric_count 3, Metric_avg (pystr ''60.0''), Metric_max 90, Metric_min 10]"
  by (simp add: overview_def series_max_def series_min_def py_int_def example_df_def mk_row_def
      example_lib_def exact_mean_def fmt_1f_def round_half_even_def Let_def)

section \<open>The ranked table and the view\<close>










end
